theory Spec2Isabelle
  imports Complex_Main "HOL-Library.Monad_Syntax" "HOL-Library.Sublist" "HOL-Library.Log_Nat"
begin

section \<open>Histograms\<close>

text \<open>
  The program (\<^verbatim>\<open>fake-factors/calculate_fake_factors.py\<close>) works on one-dimensional
  histograms of the ROOT library. A histogram with \<open>n\<close> bins has \<open>n + 2\<close> cells: cell \<open>0\<close>
  is the underflow, cells \<open>1..n\<close> are the bins and cell \<open>n + 1\<close> is the overflow. The axis
  is the list of the \<open>n + 1\<close> bin edges. Bin contents are modelled as real numbers, so the
  arithmetic on them is exact; the rounding of the machine's doubles is not modelled.
  An exception of the Python program is the value \<open>None\<close>.
\<close>

record TH1 =
  fXbins :: "real list"
  fArray :: "real list"

definition GetNbinsX :: "TH1 \<Rightarrow> nat" where
  "GetNbinsX h = length (fArray h) - 2"

text \<open>Reading a cell clamps the index to the last cell, as the library does.\<close>

definition GetBinContent :: "TH1 \<Rightarrow> nat \<Rightarrow> real" where
  "GetBinContent h i =
     (if fArray h = [] then 0
      else if i \<ge> length (fArray h) then fArray h ! (length (fArray h) - 1)
      else fArray h ! i)"

text \<open>Writing a cell beyond the last one changes nothing.\<close>

definition SetBinContent :: "TH1 \<Rightarrow> nat \<Rightarrow> real \<Rightarrow> TH1" where
  "SetBinContent h i c = (if i < length (fArray h) then h\<lparr>fArray := (fArray h)[i := c]\<rparr> else h)"

definition Reset :: "TH1 \<Rightarrow> TH1" where
  "Reset h = h\<lparr>fArray := map (\<lambda>_. 0) (fArray h)\<rparr>"

text \<open>
  \<open>Add merge h g c\<close> is \<^verbatim>\<open>h.Add(g, c)\<close>. For two histograms with the same binning it is
  \<open>h + c * g\<close> cell by cell. Otherwise the library does the following: with the factor
  \<open>1\<close> it merges \<open>g\<close> into \<open>h\<close>; with another factor it adds cell by cell if the numbers of
  cells agree, and it reports an error and leaves \<open>h\<close> as it is if they do not. The
  merge of the library is not modelled: it is the parameter \<open>merge\<close>, and no property of
  it is assumed.
\<close>

definition same_binning :: "TH1 \<Rightarrow> TH1 \<Rightarrow> bool" where
  "same_binning h g = (length (fArray g) = length (fArray h) \<and> fXbins g = fXbins h)"

definition Add :: "(TH1 \<Rightarrow> TH1 \<Rightarrow> TH1) \<Rightarrow> TH1 \<Rightarrow> TH1 \<Rightarrow> real \<Rightarrow> TH1" where
  "Add merge h g c =
     (if same_binning h g \<or> (c \<noteq> 1 \<and> length (fArray g) = length (fArray h))
      then h\<lparr>fArray := map (\<lambda>(a, b). a + c * b) (zip (fArray h) (fArray g))\<rparr>
      else if c = 1 then merge h g
      else h)"

text \<open>
  \<open>Divide h g\<close> is \<^verbatim>\<open>h.Divide(g)\<close>: cell by cell \<open>h / g\<close>, and \<open>0\<close> in every cell where
  \<open>g\<close> is \<open>0\<close>. For histograms with different numbers of cells the library reports an
  error and leaves \<open>h\<close> as it is.
\<close>

definition Divide :: "TH1 \<Rightarrow> TH1 \<Rightarrow> TH1" where
  "Divide h g =
     (if length (fArray g) \<noteq> length (fArray h) then h
      else h\<lparr>fArray := map (\<lambda>(a, b). if b \<noteq> 0 then a / b else 0) (zip (fArray h) (fArray g))\<rparr>)"

text \<open>
  \<^verbatim>\<open>GetXaxis().FindBin(x)\<close>: \<open>0\<close> below the first edge, \<open>n + 1\<close> from the last edge on,
  and otherwise one more than the index of the last edge that is at most \<open>x\<close>.
\<close>

definition FindBin :: "TH1 \<Rightarrow> real \<Rightarrow> nat" where
  "FindBin h x =
     (if fXbins h = [] \<or> x < hd (fXbins h) then 0
      else if \<not> x < last (fXbins h) then length (fXbins h)
      else length (takeWhile (\<lambda>e. e \<le> x) (fXbins h)))"

section \<open>Configuration\<close>

datatype channel = et | mt | tt

datatype fraction = F_data | F_W | F_TT | F_QCD | F_DY | F_real

definition channel_name :: "channel \<Rightarrow> string" where
  "channel_name ch = (case ch of et \<Rightarrow> ''et'' | mt \<Rightarrow> ''mt'' | tt \<Rightarrow> ''tt'')"

record config_entry =
  expression :: string

text \<open>
  The arguments of the command line. A friend directory that is not given is \<open>None\<close>.
  The program then replaces the key \<^verbatim>\<open>args.config\<close> by the entry of the configuration
  file and adds the output directory: these are the \<open>arguments\<close>.
\<close>

record command_line =
  directory :: string
  friend_directory :: "channel \<Rightarrow> string option"
  fake_factor_directory :: "channel \<Rightarrow> string"
  era :: string
  num_threads :: nat

record arguments = command_line +
  config :: "channel \<Rightarrow> config_entry"
  output_directory :: string

text \<open>
  The dictionary \<^verbatim>\<open>composition\<close> of \<^verbatim>\<open>determine_fractions\<close>, in the order it is written.
  Python 2 does not fix the order in which the keys of a dictionary are visited; the
  lemmas on the loops over the groups below hold for every order of distinct keys.
\<close>

definition composition :: "channel \<Rightarrow> (fraction \<times> string list) list" where
  "composition ch =
     (case ch of
        tt \<Rightarrow> [(F_data, [''data_obs'']), (F_W, [''W'', ''VVJ'']), (F_TT, [''TTJ'']),
               (F_QCD, [''QCD'']), (F_DY, [''ZJ'']), (F_real, [''ZTT'', ''ZL'', ''TTT'', ''VVT''])]
      | _ \<Rightarrow> [(F_data, [''data_obs'']), (F_W, [''W'', ''VVJ'', ''ZJ'']), (F_TT, [''TTJ'']),
              (F_QCD, [''QCD'']), (F_real, [''ZTT'', ''ZL'', ''TTT'', ''VVT''])])"

text \<open>The categories of \<^verbatim>\<open>main\<close>.\<close>

definition categories :: "channel \<Rightarrow> string list" where
  "categories ch =
     (case ch of
        tt \<Rightarrow> [''tt1_ggh'', ''tt1_qqh'', ''tt1_ztt'', ''tt1_noniso'', ''tt1_misc'',
               ''tt2_ggh'', ''tt2_qqh'', ''tt2_ztt'', ''tt2_noniso'', ''tt2_misc'']
      | _ \<Rightarrow> [''ggh'', ''qqh'', ''ztt'', ''zll'', ''w'', ''tt'', ''ss'', ''misc''])"

section \<open>The composition fractions\<close>

text \<open>
  The key of a histogram in the file of templates. The file is a map from keys to
  histograms; a key that it does not have ends the program with an exception. The
  messages that \<^verbatim>\<open>determine_fractions\<close> logs are left out.
\<close>

definition hist_key :: "arguments \<Rightarrow> channel \<Rightarrow> string \<Rightarrow> string \<Rightarrow> string" where
  "hist_key args ch cat proc =
     ''#'' @ channel_name ch @ ''#'' @ channel_name ch @ ''_'' @ cat @ ''#'' @ proc
       @ ''#smhtt#Run'' @ era args @ ''#'' @ expression (config args ch) @ ''#125#''"

type_synonym hist_file = "string \<rightharpoonup> TH1"
type_synonym subsubdict = "fraction \<rightharpoonup> TH1"

text \<open>First loop: every group starts as an emptied copy of the data histogram.\<close>

fun init_fractions :: "TH1 \<Rightarrow> fraction list \<Rightarrow> subsubdict \<Rightarrow> subsubdict" where
  "init_fractions h [] ssd = ssd"
| "init_fractions h (f # fs) ssd = init_fractions h fs (ssd(f \<mapsto> Reset h))"

text \<open>The inner loop over the processes of one group.\<close>

fun add_processes :: "(TH1 \<Rightarrow> TH1 \<Rightarrow> TH1) \<Rightarrow> hist_file \<Rightarrow> (string \<Rightarrow> string) \<Rightarrow> string list
    \<Rightarrow> TH1 \<Rightarrow> TH1 option" where
  "add_processes merge hf key [] h = Some h"
| "add_processes merge hf key (p # ps) h =
     (case hf (key p) of None \<Rightarrow> None
      | Some g \<Rightarrow> add_processes merge hf key ps (Add merge h g 1))"

text \<open>
  Second loop: every group but QCD sums its processes and is then added to the QCD
  histogram, the data with weight \<open>1\<close> and every other group with weight \<open>-1\<close>.
\<close>

fun sum_groups :: "(TH1 \<Rightarrow> TH1 \<Rightarrow> TH1) \<Rightarrow> hist_file \<Rightarrow> (string \<Rightarrow> string)
    \<Rightarrow> (fraction \<times> string list) list \<Rightarrow> subsubdict \<Rightarrow> subsubdict option" where
  "sum_groups merge hf key [] ssd = Some ssd"
| "sum_groups merge hf key ((f, procs) # rest) ssd =
     (if f = F_QCD then sum_groups merge hf key rest ssd
      else do {
        h \<leftarrow> ssd f;
        h' \<leftarrow> add_processes merge hf key procs h;
        q \<leftarrow> (ssd(f \<mapsto> h')) F_QCD;
        sum_groups merge hf key rest
          ((ssd(f \<mapsto> h'))(F_QCD \<mapsto> Add merge q h' (if f = F_data then 1 else - 1)))
      })"

text \<open>Third loop: every group is divided by a copy of the data histogram.\<close>

fun divide_all :: "TH1 \<Rightarrow> fraction list \<Rightarrow> subsubdict \<Rightarrow> subsubdict option" where
  "divide_all d [] ssd = Some ssd"
| "divide_all d (f # fs) ssd =
     do { h \<leftarrow> ssd f; divide_all d fs (ssd(f \<mapsto> Divide h d)) }"

text \<open>
  The sanity check. In a cell with a negative QCD fraction, QCD is set to \<open>0\<close> and every
  group but the data is divided by one minus the QCD fraction read before.
\<close>

fun rescale_groups :: "nat \<Rightarrow> real \<Rightarrow> fraction list \<Rightarrow> subsubdict \<Rightarrow> subsubdict option" where
  "rescale_groups i q [] ssd = Some ssd"
| "rescale_groups i q (f # fs) ssd =
     (if f \<noteq> F_data
      then do {
        h \<leftarrow> ssd f;
        rescale_groups i q fs (ssd(f \<mapsto> SetBinContent h i (GetBinContent h i / (1 - q))))
      }
      else rescale_groups i q fs ssd)"

fun sanity_check :: "fraction list \<Rightarrow> nat list \<Rightarrow> subsubdict \<Rightarrow> subsubdict option" where
  "sanity_check keys [] ssd = Some ssd"
| "sanity_check keys (i # is) ssd =
     do {
       q \<leftarrow> ssd F_QCD;
       let qcd_fraction = GetBinContent q i;
       if qcd_fraction < 0
       then do {
         ssd' \<leftarrow> rescale_groups i qcd_fraction keys (ssd(F_QCD \<mapsto> SetBinContent q i 0));
         sanity_check keys is ssd'
       }
       else sanity_check keys is ssd
     }"

text \<open>The body of the loop over the categories of a channel.\<close>

definition category_fractions :: "(TH1 \<Rightarrow> TH1 \<Rightarrow> TH1) \<Rightarrow> arguments \<Rightarrow> hist_file \<Rightarrow> channel \<Rightarrow> string \<Rightarrow> subsubdict option" where
  "category_fractions merge args hf ch cat =
     do {
       let keys = map fst (composition ch);
       d \<leftarrow> hf (hist_key args ch cat ''data_obs'');
       let ssd0 = init_fractions d keys Map.empty;
       ssd1 \<leftarrow> sum_groups merge hf (hist_key args ch cat) (composition ch) ssd0;
       denominator_hist \<leftarrow> ssd1 F_data;
       ssd2 \<leftarrow> divide_all denominator_hist keys ssd1;
       q \<leftarrow> ssd2 F_QCD;
       sanity_check keys [0 ..< GetNbinsX q + 2] ssd2
     }"

type_synonym subdict = "string \<rightharpoonup> subsubdict"

fun channel_fractions :: "(TH1 \<Rightarrow> TH1 \<Rightarrow> TH1) \<Rightarrow> arguments \<Rightarrow> hist_file \<Rightarrow> channel \<Rightarrow> string list
    \<Rightarrow> subdict \<Rightarrow> subdict option" where
  "channel_fractions merge args hf ch [] sd = Some sd"
| "channel_fractions merge args hf ch (cat # cats) sd =
     do {
       ssd \<leftarrow> category_fractions merge args hf ch cat;
       channel_fractions merge args hf ch cats (sd(cat \<mapsto> ssd))
     }"

type_synonym fractions = "channel \<rightharpoonup> subdict"

fun all_fractions :: "(TH1 \<Rightarrow> TH1 \<Rightarrow> TH1) \<Rightarrow> arguments \<Rightarrow> (channel \<Rightarrow> string list) \<Rightarrow> hist_file \<Rightarrow> channel list
    \<Rightarrow> fractions \<Rightarrow> fractions option" where
  "all_fractions merge args cats hf [] fr = Some fr"
| "all_fractions merge args cats hf (ch # chs) fr =
     do {
       sd \<leftarrow> channel_fractions merge args hf ch (cats ch) Map.empty;
       all_fractions merge args cats hf chs (fr(ch \<mapsto> sd))
     }"

definition determine_fractions :: "(TH1 \<Rightarrow> TH1 \<Rightarrow> TH1) \<Rightarrow> arguments \<Rightarrow> (channel \<Rightarrow> string list)
    \<Rightarrow> hist_file \<Rightarrow> fractions option" where
  "determine_fractions merge args cats hf = all_fractions merge args cats hf [et, mt, tt] Map.empty"


section \<open>The values of the fake factor function\<close>

text \<open>
  The fake factor function is an external object: it maps the list of input values and an
  optional name of a systematic shift to a double. Its result is compared, never
  computed with, so a double is a real number, an infinity or NaN, and the comparison
  is the one of the machine: every comparison with NaN is false.
\<close>

datatype double = Finite real | PosInf | NegInf | NaN

fun double_le :: "double \<Rightarrow> double \<Rightarrow> bool" where
  "double_le NaN _ = False"
| "double_le _ NaN = False"
| "double_le NegInf _ = True"
| "double_le _ PosInf = True"
| "double_le (Finite x) (Finite y) = (x \<le> y)"
| "double_le _ _ = False"

type_synonym fake_factor = "real list \<Rightarrow> string option \<Rightarrow> double"

section \<open>Python values\<close>

text \<open>\<^verbatim>\<open>sub in s\<close> on strings.\<close>

fun str_in :: "string \<Rightarrow> string \<Rightarrow> bool" where
  "str_in sub [] = (sub = [])"
| "str_in sub (c # cs) = (prefix sub (c # cs) \<or> str_in sub cs)"

text \<open>
  The values of the fields of an event are doubles, and the program adds and multiplies
  them as doubles: the result is the exact result rounded to the nearest double, a tie
  to the double with the even significand. A double has a significand of 53 bits;
  \<open>binary_exponent x\<close> is the \<open>e\<close> with \<open>2 ^ e \<le> \<bar>x\<bar> < 2 ^ (e + 1)\<close>. Overflow to an
  infinity and the subnormal doubles are left out.
\<close>

definition binary_exponent :: "real \<Rightarrow> int" where
  "binary_exponent x =
     (if 1 \<le> \<bar>x\<bar> then bitlen \<lfloor>\<bar>x\<bar>\<rfloor> - 1 else - bitlen (\<lceil>1 / \<bar>x\<bar>\<rceil> - 1))"

definition round_half_even :: "real \<Rightarrow> int" where
  "round_half_even r =
     (let f = \<lfloor>r\<rfloor>; d = r - of_int f
      in if d < 1 / 2 then f else if 1 / 2 < d then f + 1 else if even f then f else f + 1)"

definition round_double :: "real \<Rightarrow> real" where
  "round_double x =
     (if x = 0 then 0
      else let u = 2 powi (binary_exponent x - 52) in of_int (round_half_even (x / u)) * u)"

definition double_add :: "real \<Rightarrow> real \<Rightarrow> real" where
  "double_add x y = round_double (x + y)"

definition double_mul :: "real \<Rightarrow> real \<Rightarrow> real" where
  "double_mul x y = round_double (x * y)"

text \<open>\<^verbatim>\<open>int(x)\<close> on a float truncates towards zero.\<close>

definition py_int :: "real \<Rightarrow> int" where
  "py_int x = (if 0 \<le> x then \<lfloor>x\<rfloor> else \<lceil>x\<rceil>)"

text \<open>\<^verbatim>\<open>xs[i]\<close>: a negative index counts from the end, an index out of range raises.\<close>

definition py_index :: "'a list \<Rightarrow> int \<Rightarrow> 'a option" where
  "py_index xs i =
     (if 0 \<le> i \<and> i < int (length xs) then Some (xs ! nat i)
      else if i < 0 \<and> - int (length xs) \<le> i then Some (xs ! nat (int (length xs) + i))
      else None)"

text \<open>\<^verbatim>\<open>"%i" % x\<close> for the two values \<open>1\<close> and \<open>2\<close> that \<^verbatim>\<open>suffix\<close> holds.\<close>

definition str_i :: "nat \<Rightarrow> string" where
  "str_i x = (if x = 1 then ''1'' else ''2'')"

text \<open>\<^verbatim>\<open>os.path.join(a, b)\<close> for two components.\<close>

definition path_join :: "string \<Rightarrow> string \<Rightarrow> string" where
  "path_join a b =
     (if b \<noteq> [] \<and> hd b = CHR ''/'' then b
      else if a = [] \<or> last a = CHR ''/'' then a @ b
      else a @ ''/'' @ b)"

section \<open>The worker of one file\<close>

text \<open>
  An event of the input tree, with the friend tree attached, maps the names of its
  fields to their values; reading a field that it does not have raises.
\<close>

type_synonym event = "string \<rightharpoonup> real"

definition unc_shifts :: "channel \<Rightarrow> string list" where
  "unc_shifts ch =
     (case ch of
        tt \<Rightarrow> [''ff_qcd_syst'', ''ff_qcd_dm0_njet0_stat'', ''ff_qcd_dm0_njet1_stat'',
               ''ff_qcd_dm1_njet0_stat'', ''ff_qcd_dm1_njet1_stat'', ''ff_w_syst'',
               ''ff_tt_syst'', ''ff_w_frac_syst'', ''ff_tt_frac_syst'', ''ff_dy_frac_syst'']
      | _ \<Rightarrow> [''ff_qcd_syst'', ''ff_qcd_dm0_njet0_stat'', ''ff_qcd_dm0_njet1_stat'',
              ''ff_qcd_dm1_njet0_stat'', ''ff_qcd_dm1_njet1_stat'', ''ff_w_syst'',
              ''ff_w_dm0_njet0_stat'', ''ff_w_dm0_njet1_stat'',
              ''ff_w_dm1_njet0_stat'', ''ff_w_dm1_njet1_stat'', ''ff_tt_syst'',
              ''ff_tt_dm0_njet0_stat'', ''ff_tt_dm0_njet1_stat'',
              ''ff_tt_dm1_njet0_stat'', ''ff_tt_dm1_njet1_stat''])"

definition suffix_of :: "channel \<Rightarrow> nat list" where
  "suffix_of ch = (case ch of tt \<Rightarrow> [1, 2] | _ \<Rightarrow> [2])"

definition file_channel :: "string \<Rightarrow> channel" where
  "file_channel datafile =
     (if str_in ''SingleElectron'' datafile then et
      else if str_in ''SingleMuon'' datafile then mt
      else tt)"

text \<open>The keys of \<^verbatim>\<open>output_buffer\<close> and the names of the branches bound to them.\<close>

definition nom_key :: "nat \<Rightarrow> string" where
  "nom_key x = ''nom_'' @ str_i x"

definition shift_key :: "string \<Rightarrow> string \<Rightarrow> nat \<Rightarrow> string" where
  "shift_key syst shift x = syst @ ''_'' @ shift @ ''_'' @ str_i x"

definition nom_branch :: "nat \<Rightarrow> string" where
  "nom_branch x = ''ff'' @ str_i x @ ''_nom''"

definition shift_branch :: "nat \<Rightarrow> string \<Rightarrow> string \<Rightarrow> string" where
  "shift_branch x syst shift = ''ff'' @ str_i x @ ''_'' @ syst @ ''_'' @ shift"

text \<open>The nested loops over the systematic sources and the two directions, in their order.\<close>

definition shift_pairs :: "channel \<Rightarrow> (string \<times> string) list" where
  "shift_pairs ch = List.product (unc_shifts ch) [''up'', ''down'']"

text \<open>
  The branches of the output tree, each with the key of the buffer it reads when the
  tree is filled.
\<close>

definition output_branches :: "channel \<Rightarrow> (string \<times> string) list" where
  "output_branches ch =
     concat (map (\<lambda>x. (nom_branch x, nom_key x)
                   # map (\<lambda>(syst, shift). (shift_branch x syst shift, shift_key syst shift x))
                       (shift_pairs ch))
                 (suffix_of ch))"

datatype printed = PStr string | PVal double | PList "real list"

text \<open>
  The state of a worker: the histograms of the fractions it was given, the buffers (every
  buffer is created with the value zero before the loop over the events, so the dictionary
  is a total function), the entries of the output tree and what was printed.
\<close>

record worker_state =
  histograms :: fractions
  output_buffer :: "string \<Rightarrow> double"
  output_tree :: "(string \<times> double) list list"
  stdout :: "printed list"

definition resolve_category :: "channel \<Rightarrow> (channel \<Rightarrow> string list) \<Rightarrow> event \<Rightarrow> nat \<Rightarrow> string option" where
  "resolve_category ch cats event x =
     do {
       m \<leftarrow> event (channel_name ch @ ''_max_index'');
       py_index (cats ch)
         (py_int (double_add m
            (if ch = tt \<and> x = 2 then double_mul 0.5 (real (length (cats ch))) else 0.0)))
     }"

definition feature_vector :: "channel \<Rightarrow> subsubdict \<Rightarrow> nat \<Rightarrow> event \<Rightarrow> nat \<Rightarrow> real list option" where
  "feature_vector ch cat_fractions bin_index event x =
     (if ch = tt
      then do {
        pt_x \<leftarrow> event (''pt_'' @ str_i x);
        pt_other \<leftarrow> event (''pt_'' @ str_i (3 - x));
        decayMode_x \<leftarrow> event (''decayMode_'' @ str_i x);
        njets \<leftarrow> event ''njets'';
        m_vis \<leftarrow> event ''m_vis'';
        qcd \<leftarrow> cat_fractions F_QCD;
        w \<leftarrow> cat_fractions F_W;
        ttbar \<leftarrow> cat_fractions F_TT;
        dy \<leftarrow> cat_fractions F_DY;
        Some [pt_x, pt_other, decayMode_x, njets, m_vis,
              GetBinContent qcd bin_index, GetBinContent w bin_index,
              GetBinContent ttbar bin_index, GetBinContent dy bin_index]
      }
      else do {
        pt_2 \<leftarrow> event ''pt_2'';
        decayMode_2 \<leftarrow> event ''decayMode_2'';
        njets \<leftarrow> event ''njets'';
        m_vis \<leftarrow> event ''m_vis'';
        mt_1 \<leftarrow> event ''mt_1'';
        iso_1 \<leftarrow> event ''iso_1'';
        qcd \<leftarrow> cat_fractions F_QCD;
        w \<leftarrow> cat_fractions F_W;
        ttbar \<leftarrow> cat_fractions F_TT;
        Some [pt_2, decayMode_2, njets, m_vis, mt_1, iso_1,
              GetBinContent qcd bin_index, GetBinContent w bin_index,
              GetBinContent ttbar bin_index]
      })"

text \<open>The inputs of the fake factor function for one event and one tau.\<close>

definition event_inputs :: "arguments \<Rightarrow> fractions \<Rightarrow> (channel \<Rightarrow> string list) \<Rightarrow> channel
    \<Rightarrow> event \<Rightarrow> nat \<Rightarrow> real list option" where
  "event_inputs args fr cats ch event x =
     do {
       category \<leftarrow> resolve_category ch cats event x;
       subdict \<leftarrow> fr ch;
       cat_fractions \<leftarrow> subdict category;
       data \<leftarrow> cat_fractions F_data;
       v \<leftarrow> event (expression (config args ch));
       feature_vector ch cat_fractions (FindBin data v) event x
     }"

definition in_range :: "double \<Rightarrow> bool" where
  "in_range v = (double_le (Finite 0) v \<and> double_le v (Finite 999))"

text \<open>The nominal value: stored, and replaced by zero when it is not in the range.\<close>

definition store_nominal :: "fake_factor \<Rightarrow> real list \<Rightarrow> nat \<Rightarrow> worker_state \<Rightarrow> worker_state" where
  "store_nominal ff inputs x s =
     (let v = ff inputs None;
          s1 = s\<lparr>output_buffer := (output_buffer s)(nom_key x := v)\<rparr>
      in if \<not> in_range (output_buffer s1 (nom_key x))
         then s1\<lparr>output_buffer := (output_buffer s1)(nom_key x := Finite 0)\<rparr>
         else s1)"

text \<open>
  A shifted value: stored, and when it is not in the range, the name of the shift, the
  value and the inputs are printed and the value is replaced by zero.
\<close>

definition store_shift :: "fake_factor \<Rightarrow> real list \<Rightarrow> nat \<Rightarrow> string \<times> string \<Rightarrow> worker_state
    \<Rightarrow> worker_state" where
  "store_shift ff inputs x p s =
     (case p of (syst, shift) \<Rightarrow>
        let k = shift_key syst shift x;
            v = ff inputs (Some (syst @ ''_'' @ shift));
            s1 = s\<lparr>output_buffer := (output_buffer s)(k := v)\<rparr>
        in if \<not> in_range (output_buffer s1 k)
           then s1\<lparr>stdout := stdout s1 @ [PStr (syst @ shift), PVal (output_buffer s1 k), PList inputs],
                   output_buffer := (output_buffer s1)(k := Finite 0)\<rparr>
           else s1)"

fun fill_legs :: "fake_factor \<Rightarrow> arguments \<Rightarrow> (channel \<Rightarrow> string list) \<Rightarrow> channel \<Rightarrow> event
    \<Rightarrow> nat list \<Rightarrow> worker_state \<Rightarrow> worker_state option" where
  "fill_legs ff args cats ch event [] s = Some s"
| "fill_legs ff args cats ch event (x # xs) s =
     do {
       inputs \<leftarrow> event_inputs args (histograms s) cats ch event x;
       fill_legs ff args cats ch event xs
         (fold (store_shift ff inputs x) (shift_pairs ch) (store_nominal ff inputs x s))
     }"

text \<open>\<^verbatim>\<open>output_tree.Fill()\<close> appends the current values of the buffers of all branches.\<close>

definition Fill :: "channel \<Rightarrow> worker_state \<Rightarrow> worker_state" where
  "Fill ch s =
     s\<lparr>output_tree := output_tree s @ [map (\<lambda>(b, k). (b, output_buffer s k)) (output_branches ch)]\<rparr>"

fun fill_tree :: "fake_factor \<Rightarrow> arguments \<Rightarrow> (channel \<Rightarrow> string list) \<Rightarrow> channel \<Rightarrow> event list
    \<Rightarrow> worker_state \<Rightarrow> worker_state option" where
  "fill_tree ff args cats ch [] s = Some s"
| "fill_tree ff args cats ch (event # events) s =
     do {
       s' \<leftarrow> fill_legs ff args cats ch event (suffix_of ch) s;
       fill_tree ff args cats ch events (Fill ch s')
     }"

text \<open>
  The worker. Its argument is the list \<^verbatim>\<open>config\<close> of the program; the fake factor
  function and the events of the input tree are what it reads from the files that the
  list names. The result is the state when the tree is written, or \<open>None\<close> when an
  event raised an exception. Opening, creating and closing the files is left out.
\<close>

definition apply_fake_factors :: "fake_factor \<Rightarrow> event list
    \<Rightarrow> arguments \<times> string \<times> fractions \<times> (channel \<Rightarrow> string list) \<Rightarrow> worker_state option" where
  "apply_fake_factors ff input_tree cfg =
     (case cfg of (args, datafile, fr, cats) \<Rightarrow>
        fill_tree ff args cats (file_channel datafile) input_tree
          \<lparr>histograms = fr, output_buffer = (\<lambda>_. Finite 0), output_tree = [], stdout = []\<rparr>)"


section \<open>The dispatcher\<close>

text \<open>
  What \<^verbatim>\<open>main\<close> reads: the entries of the configuration file, and of the file system the
  entries of a directory, the files and the paths that exist. (The parameter \<open>merge\<close> is
  the one of \<open>Add\<close>.)
\<close>

record yaml_entry =
  outputdir :: string
  channel_config :: "channel \<Rightarrow> config_entry"

record filesystem =
  listdir :: "string \<Rightarrow> string list"
  isfile :: "string \<Rightarrow> bool"
  path_exists :: "string \<Rightarrow> bool"

text \<open>
  What \<^verbatim>\<open>main\<close> does: the directories it makes and the tasks it hands to the pool of
  workers, and whether it raised an exception.
\<close>

record run =
  made_directories :: "string list"
  dispatched :: "(arguments \<times> string \<times> fractions \<times> (channel \<Rightarrow> string list)) list"
  raised :: bool

definition abort :: run where
  "abort = \<lparr>made_directories = [], dispatched = [], raised = True\<rparr>"

definition is_candidate :: "arguments \<Rightarrow> string \<Rightarrow> bool" where
  "is_candidate args entry =
     (str_in (''Run'' @ era args) entry \<and> (str_in ''Single'' entry \<or> str_in ''Tau'' entry))"

definition friend_exists :: "arguments \<Rightarrow> filesystem \<Rightarrow> channel \<Rightarrow> string \<Rightarrow> bool option" where
  "friend_exists args fs ch path =
     (case friend_directory args ch of
        None \<Rightarrow> None
      | Some dir \<Rightarrow> Some (isfile fs (path_join dir path)))"

text \<open>The checks of one entry; \<open>None\<close> is an exception, and \<open>Some path\<close> the file to append.\<close>

definition check_entry :: "arguments \<Rightarrow> filesystem \<Rightarrow> string \<Rightarrow> string option" where
  "check_entry args fs entry =
     (let path = path_join entry (entry @ ''.root'')
      in if \<not> isfile fs (path_join (directory args) path) then None
         else if str_in ''SingleElectron'' entry
         then do { ok \<leftarrow> friend_exists args fs et path; if \<not> ok then None else Some path }
         else if str_in ''SingleMuon'' entry
         then do { ok \<leftarrow> friend_exists args fs mt path; if \<not> ok then None else Some path }
         else if str_in ''Tau'' entry
         then do { ok \<leftarrow> friend_exists args fs tt path; if \<not> ok then None else Some path }
         else None)"

fun find_datafiles :: "arguments \<Rightarrow> filesystem \<Rightarrow> string list \<Rightarrow> string list \<Rightarrow> string list option" where
  "find_datafiles args fs [] datafiles = Some datafiles"
| "find_datafiles args fs (entry # entries) datafiles =
     (if is_candidate args entry
      then do {
        path \<leftarrow> check_entry args fs entry;
        find_datafiles args fs entries (datafiles @ [path])
      }
      else find_datafiles args fs entries datafiles)"

definition main :: "(TH1 \<Rightarrow> TH1 \<Rightarrow> TH1) \<Rightarrow> command_line \<Rightarrow> string \<Rightarrow> (string \<rightharpoonup> yaml_entry) \<Rightarrow> hist_file \<Rightarrow> filesystem \<Rightarrow> run" where
  "main merge cl key yaml hf fs =
     (case yaml key of
        None \<Rightarrow> abort
      | Some entry \<Rightarrow>
          let args = \<lparr>directory = directory cl, friend_directory = friend_directory cl,
                      fake_factor_directory = fake_factor_directory cl, era = era cl,
                      num_threads = num_threads cl, config = channel_config entry,
                      output_directory = outputdir entry\<rparr>
          in case determine_fractions merge args categories hf of
               None \<Rightarrow> abort
             | Some fr \<Rightarrow>
                 (case find_datafiles args fs (listdir fs (directory args)) [] of
                    None \<Rightarrow> abort
                  | Some datafiles \<Rightarrow>
                      if path_exists fs (output_directory args) then abort
                      else \<lparr>made_directories = [output_directory args],
                            dispatched = map (\<lambda>datafile. (args, datafile, fr, categories)) datafiles,
                            raised = False\<rparr>))"

section \<open>Definitions for the statements and the proofs\<close>











text \<open>The groups whose fractions are passed on (all but the data), the processes whose templates are read, and the fractions of the groups in one cell of one category.\<close>

definition groups :: "channel \<Rightarrow> fraction list" where
  "groups ch = filter (\<lambda>f. f \<noteq> F_data) (map fst (composition ch))"


definition fraction_values :: "fractions option \<Rightarrow> channel \<Rightarrow> string \<Rightarrow> nat \<Rightarrow> real list option" where
  "fraction_values r ch cat i =
     do {
       fr \<leftarrow> r;
       sd \<leftarrow> fr ch;
       ssd \<leftarrow> sd cat;
       hs \<leftarrow> those (map ssd (groups ch));
       Some (map (\<lambda>h. GetBinContent h i) hs)
     }"

text \<open>An example: the arguments, and a file of templates in which the data of the category \<open>ggh\<close> of the muon-tau channel has the bins \<open>[10, 10]\<close>, the process \<open>W\<close> has the given cells and every other template is empty.\<close>

definition example_args :: arguments where
  "example_args = \<lparr>directory = ''ntuples'', friend_directory = (\<lambda>_. Some ''friends''),
     fake_factor_directory = (\<lambda>_. ''ff.root''), era = ''2017'', num_threads = 32,
     config = (\<lambda>_. \<lparr>expression = ''m_vis''\<rparr>), output_directory = ''out''\<rparr>"

definition example_hist :: "real list \<Rightarrow> TH1" where
  "example_hist cs = \<lparr>fXbins = [0, 100, 200], fArray = cs\<rparr>"

definition example_file :: "real list \<Rightarrow> hist_file" where
  "example_file other k =
     (if k = hist_key example_args mt ''ggh'' ''data_obs'' then Some (example_hist [0, 10, 10, 0])
      else if k = hist_key example_args mt ''ggh'' ''W'' then Some (example_hist other)
      else Some (example_hist [0, 0, 0, 0]))"

text \<open>
  In the examples all templates have the same binning, so the merge of the library is
  never called; where a closed term is needed, it is taken to leave the histogram as it is.
\<close>

definition first_histogram :: "TH1 \<Rightarrow> TH1 \<Rightarrow> TH1" where
  "first_histogram h g = h"

text \<open>The value that is kept for a value of the fake factor function, the writes of one tau into the buffers and the values of its branches.\<close>

definition clamp :: "double \<Rightarrow> double" where
  "clamp v = (if in_range v then v else Finite 0)"

definition leg_writes :: "fake_factor \<Rightarrow> channel \<Rightarrow> real list \<Rightarrow> nat \<Rightarrow> (string \<times> double) list" where
  "leg_writes ff ch inputs x =
     (nom_key x, clamp (ff inputs None))
       # map (\<lambda>(syst, shift). (shift_key syst shift x, clamp (ff inputs (Some (syst @ ''_'' @ shift)))))
           (shift_pairs ch)"

definition leg_values :: "fake_factor \<Rightarrow> channel \<Rightarrow> real list \<Rightarrow> nat \<Rightarrow> (string \<times> double) list" where
  "leg_values ff ch inputs x =
     (nom_branch x, clamp (ff inputs None))
       # map (\<lambda>(syst, shift). (shift_branch x syst shift, clamp (ff inputs (Some (syst @ ''_'' @ shift)))))
           (shift_pairs ch)"

text \<open>A sequence of writes into the buffers, the inputs of all taus of an event, and the entry of the output tree for an event.\<close>

definition write_all :: "(string \<times> double) list \<Rightarrow> (string \<Rightarrow> double) \<Rightarrow> (string \<Rightarrow> double)" where
  "write_all kvs buf = fold (\<lambda>(k, v) b. b(k := v)) kvs buf"

definition all_inputs :: "arguments \<Rightarrow> fractions \<Rightarrow> (channel \<Rightarrow> string list) \<Rightarrow> channel \<Rightarrow> event
    \<Rightarrow> nat list \<Rightarrow> real list list option" where
  "all_inputs args fr cats ch event xs = those (map (event_inputs args fr cats ch event) xs)"

definition event_row :: "fake_factor \<Rightarrow> arguments \<Rightarrow> fractions \<Rightarrow> (channel \<Rightarrow> string list) \<Rightarrow> channel
    \<Rightarrow> event \<Rightarrow> (string \<times> double) list option" where
  "event_row ff args fr cats ch event =
     map_option (\<lambda>ins. concat (map (\<lambda>(x, i). leg_values ff ch i x) (zip (suffix_of ch) ins)))
       (all_inputs args fr cats ch event (suffix_of ch))"

text \<open>The branches of one tau.\<close>

definition leg_branches :: "channel \<Rightarrow> nat \<Rightarrow> (string \<times> string) list" where
  "leg_branches ch x =
     (nom_branch x, nom_key x)
       # map (\<lambda>(syst, shift). (shift_branch x syst shift, shift_key syst shift x)) (shift_pairs ch)"

text \<open>The value of a branch in entry \<open>i\<close> of the output tree of a run.\<close>

definition stored :: "worker_state option \<Rightarrow> nat \<Rightarrow> string \<Rightarrow> double option" where
  "stored r i b =
     do { s \<leftarrow> r; if i < length (output_tree s) then map_of (output_tree s ! i) b else None }"

text \<open>An example of a run: fractions, an event with all fields, and a fake factor function whose nominal value is \<open>1500\<close>.\<close>

definition example_ssd :: subsubdict where
  "example_ssd =
     [F_data \<mapsto> example_hist [0, 1, 1, 0], F_W \<mapsto> example_hist [0, 1, 2 / 5, 0],
      F_TT \<mapsto> example_hist [0, 0, 0, 0], F_QCD \<mapsto> example_hist [0, 0, 3 / 5, 0],
      F_DY \<mapsto> example_hist [0, 0, 0, 0], F_real \<mapsto> example_hist [0, 0, 0, 0]]"

definition example_fr :: fractions where
  "example_fr = (\<lambda>ch. Some (\<lambda>cat. Some example_ssd))"

definition example_event :: event where
  "example_event =
     [''pt_1'' \<mapsto> 40, ''pt_2'' \<mapsto> 30, ''decayMode_1'' \<mapsto> 1, ''decayMode_2'' \<mapsto> 10,
      ''njets'' \<mapsto> 2, ''m_vis'' \<mapsto> 150, ''mt_1'' \<mapsto> 20, ''iso_1'' \<mapsto> 1 / 20,
      ''et_max_index'' \<mapsto> 0, ''mt_max_index'' \<mapsto> 1, ''tt_max_index'' \<mapsto> 3]"

definition example_ff :: fake_factor where
  "example_ff inputs shift =
     (case shift of None \<Rightarrow> Finite 1500
      | Some name \<Rightarrow> if name = ''ff_qcd_syst_up'' then Finite 1500 else Finite (1 / 10))"

definition nominal_ff :: fake_factor where
  "nominal_ff inputs shift = (case shift of None \<Rightarrow> Finite 1500 | Some name \<Rightarrow> Finite (1 / 10))"

definition example_config :: "string \<Rightarrow> arguments \<times> string \<times> fractions \<times> (channel \<Rightarrow> string list)" where
  "example_config datafile = (example_args, datafile, example_fr, categories)"

text \<open>
  An example with two events that differ, and a fake factor function whose value is the
  first of its inputs, the transverse momentum of the tau.
\<close>

definition second_event :: event where
  "second_event =
     [''pt_1'' \<mapsto> 60, ''pt_2'' \<mapsto> 45, ''decayMode_1'' \<mapsto> 0, ''decayMode_2'' \<mapsto> 1,
      ''njets'' \<mapsto> 0, ''m_vis'' \<mapsto> 50, ''mt_1'' \<mapsto> 35, ''iso_1'' \<mapsto> 1 / 10,
      ''et_max_index'' \<mapsto> 2, ''mt_max_index'' \<mapsto> 4, ''tt_max_index'' \<mapsto> 0]"

definition pt_ff :: fake_factor where
  "pt_ff inputs shift = (case inputs of [] \<Rightarrow> Finite 0 | p # _ \<Rightarrow> Finite p)"

text \<open>The two halves of the list of the categories of the tau-tau channel.\<close>

definition first_half :: "string list" where
  "first_half = take (length (categories tt) div 2) (categories tt)"

definition second_half :: "string list" where
  "second_half = drop (length (categories tt) div 2) (categories tt)"

text \<open>The inputs of the fake factor function as the specification lists them: transverse momentum, decay mode, number of jets, visible mass, in the lepton-tau channels the transverse mass and the isolation of the lepton, then the fractions of QCD, W, TT and, in the tau-tau channel, DY.\<close>

definition claimed_feature_vector :: "channel \<Rightarrow> subsubdict \<Rightarrow> nat \<Rightarrow> event \<Rightarrow> nat \<Rightarrow> real list option" where
  "claimed_feature_vector ch cat_fractions bin_index event x =
     do {
       pt \<leftarrow> event (''pt_'' @ str_i x);
       decayMode \<leftarrow> event (''decayMode_'' @ str_i x);
       njets \<leftarrow> event ''njets'';
       m_vis \<leftarrow> event ''m_vis'';
       lepton \<leftarrow> (if ch = tt then Some []
                  else do { mt_1 \<leftarrow> event ''mt_1''; iso_1 \<leftarrow> event ''iso_1''; Some [mt_1, iso_1] });
       hs \<leftarrow> those (map cat_fractions ([F_QCD, F_W, F_TT] @ (if ch = tt then [F_DY] else [])));
       Some ([pt, decayMode, njets, m_vis] @ lepton @ map (\<lambda>h. GetBinContent h bin_index) hs)
     }"

text \<open>The channel whose friend directory \<^verbatim>\<open>main\<close> checks for an entry.\<close>

definition entry_channel :: "string \<Rightarrow> channel option" where
  "entry_channel entry =
     (if str_in ''SingleElectron'' entry then Some et
      else if str_in ''SingleMuon'' entry then Some mt
      else if str_in ''Tau'' entry then Some tt
      else None)"

text \<open>An example of a run of \<^verbatim>\<open>main\<close>: one data set of the muon-tau channel among the entries.\<close>

definition example_cl :: command_line where
  "example_cl = \<lparr>directory = ''ntuples'', friend_directory = (\<lambda>_. Some ''friends''),
     fake_factor_directory = (\<lambda>_. ''ff.root''), era = ''2017'', num_threads = 32\<rparr>"

definition example_yaml :: "string \<rightharpoonup> yaml_entry" where
  "example_yaml = [''smhtt'' \<mapsto> \<lparr>outputdir = ''out'', channel_config = (\<lambda>_. \<lparr>expression = ''m_vis''\<rparr>)\<rparr>]"

definition example_fs :: "string list \<Rightarrow> filesystem" where
  "example_fs files = \<lparr>listdir = (\<lambda>d. if d = ''ntuples'' then [''SingleMuon_Run2017B'', ''logs''] else []),
     isfile = (\<lambda>p. p \<in> set files), path_exists = (\<lambda>p. p \<in> set files)\<rparr>"

section \<open>Properties\<close>


lemma length_Divide [simp]: "length (fArray (Divide h g)) = length (fArray h)"
  by (simp add: Divide_def)

lemma fXbins_Divide [simp]: "fXbins (Divide h g) = fXbins h"
  by (simp add: Divide_def)

lemma fXbins_Reset [simp]: "fXbins (Reset h) = fXbins h"
  by (simp add: Reset_def)

lemma fXbins_SetBinContent [simp]: "fXbins (SetBinContent h i c) = fXbins h"
  by (simp add: SetBinContent_def)


lemma length_Reset [simp]: "length (fArray (Reset h)) = length (fArray h)"
  by (simp add: Reset_def)


lemma length_SetBinContent [simp]: "length (fArray (SetBinContent h i c)) = length (fArray h)"
  by (simp add: SetBinContent_def)

























text \<open>
  C4. For a data histogram with the bins \<open>[10, 10]\<close> and one other process (\<open>W\<close>) with the
  bins \<open>[12, 4]\<close>, all other templates being empty, the fractions of the groups W, TT, QCD
  and real are \<open>1, 0, 0, 0\<close> in bin \<open>1\<close> (the raw QCD fraction \<open>-0.2\<close> is set to \<open>0\<close> and the
  others divided by \<open>1.2\<close>) and \<open>0.4, 0, 0.6, 0\<close> in bin \<open>2\<close>; both bins sum to \<open>1\<close>.
\<close>

theorem example_fractions:
  "fraction_values (determine_fractions merge example_args categories (example_file [0, 12, 4, 0]))
       mt ''ggh'' 1 = Some [1, 0, 0, 0]
   \<and> fraction_values (determine_fractions merge example_args categories (example_file [0, 12, 4, 0]))
       mt ''ggh'' 2 = Some [2 / 5, 0, 3 / 5, 0]
   \<and> groups mt = [F_W, F_TT, F_QCD, F_real]
   \<and> sum_list [1, 0, 0, 0] = (1::real) \<and> sum_list [2 / 5, 0, 3 / 5, 0] = (1::real)"
  by code_simp



lemma distinct_keys_et: "distinct (map snd (output_branches et))" by code_simp
lemma distinct_keys_mt: "distinct (map snd (output_branches mt))" by code_simp
lemma distinct_keys_tt: "distinct (map snd (output_branches tt))" by code_simp

lemma distinct_keys: "distinct (map snd (output_branches ch))"
  by (cases ch) (simp_all only: distinct_keys_et distinct_keys_mt distinct_keys_tt)

lemma distinct_names_et: "distinct (map fst (output_branches et))" by code_simp
lemma distinct_names_mt: "distinct (map fst (output_branches mt))" by code_simp
lemma distinct_names_tt: "distinct (map fst (output_branches tt))" by code_simp

lemma distinct_names: "distinct (map fst (output_branches ch))"
  by (cases ch) (simp_all only: distinct_names_et distinct_names_mt distinct_names_tt)

lemma in_range_clamp [simp]: "in_range (clamp v)"
  by (simp add: clamp_def in_range_def)

lemma write_all_simps [simp]:
  "write_all [] buf = buf"
  "write_all ((k, v) # kvs) buf = write_all kvs (buf(k := v))"
  "write_all (kvs @ kvs') buf = write_all kvs' (write_all kvs buf)"
  by (simp_all add: write_all_def)

lemma write_all_other: "k \<notin> fst ` set kvs \<Longrightarrow> write_all kvs buf k = buf k"
  by (induction kvs arbitrary: buf) auto

lemma write_all_lookup: "distinct (map fst kvs) \<Longrightarrow> (k, v) \<in> set kvs \<Longrightarrow> write_all kvs buf k = v"
proof (induction kvs arbitrary: buf)
  case Nil
  then show ?case by simp
next
  case (Cons a kvs)
  obtain k0 v0 where a: "a = (k0, v0)" by (cases a)
  show ?case
  proof (cases "(k, v) = a")
    case True
    with Cons.prems a have "k \<notin> fst ` set kvs" by auto
    with True a show ?thesis by (simp add: write_all_other)
  next
    case False
    with Cons.prems have "(k, v) \<in> set kvs" "distinct (map fst kvs)" by auto
    with Cons.IH a show ?thesis by simp
  qed
qed

lemma store_nominal_fields:
  "output_buffer (store_nominal ff inputs x s) = (output_buffer s)(nom_key x := clamp (ff inputs None))"
  "histograms (store_nominal ff inputs x s) = histograms s"
  "output_tree (store_nominal ff inputs x s) = output_tree s"
  "stdout (store_nominal ff inputs x s) = stdout s"
  by (simp_all add: store_nominal_def clamp_def Let_def)

lemma store_shift_fields:
  "output_buffer (store_shift ff inputs x (syst, shift) s)
     = (output_buffer s)(shift_key syst shift x := clamp (ff inputs (Some (syst @ ''_'' @ shift))))"
  "histograms (store_shift ff inputs x (syst, shift) s) = histograms s"
  "output_tree (store_shift ff inputs x (syst, shift) s) = output_tree s"
  by (simp_all add: store_shift_def clamp_def Let_def)

lemma fold_store_shift:
  "output_buffer (fold (store_shift ff inputs x) ps s)
     = write_all (map (\<lambda>(syst, shift). (shift_key syst shift x, clamp (ff inputs (Some (syst @ ''_'' @ shift))))) ps)
         (output_buffer s)
   \<and> histograms (fold (store_shift ff inputs x) ps s) = histograms s
   \<and> output_tree (fold (store_shift ff inputs x) ps s) = output_tree s"
proof (induction ps arbitrary: s)
  case Nil
  then show ?case by simp
next
  case (Cons p ps)
  obtain syst shift where p: "p = (syst, shift)" by (cases p)
  note IH = Cons.IH [of "store_shift ff inputs x (syst, shift) s", unfolded store_shift_fields]
  show ?case unfolding p by (simp only: fold_simps list.map prod.case write_all_simps comp_apply IH)
qed

lemma leg_fields:
  "output_buffer (fold (store_shift ff inputs x) (shift_pairs ch) (store_nominal ff inputs x s))
     = write_all (leg_writes ff ch inputs x) (output_buffer s)"
  "histograms (fold (store_shift ff inputs x) (shift_pairs ch) (store_nominal ff inputs x s)) = histograms s"
  "output_tree (fold (store_shift ff inputs x) (shift_pairs ch) (store_nominal ff inputs x s)) = output_tree s"
  by (simp_all add: fold_store_shift store_nominal_fields leg_writes_def)

lemma fill_legs_None:
  "fill_legs ff args cats ch event xs s = None
     \<longleftrightarrow> all_inputs args (histograms s) cats ch event xs = None"
proof (induction xs arbitrary: s)
  case Nil
  then show ?case by (simp add: all_inputs_def)
next
  case (Cons x xs)
  show ?case
  proof (cases "event_inputs args (histograms s) cats ch event x")
    case None
    then show ?thesis by (simp add: all_inputs_def)
  next
    case (Some inputs)
    then show ?thesis
      using Cons.IH [of "fold (store_shift ff inputs x) (shift_pairs ch) (store_nominal ff inputs x s)"]
      by (simp add: all_inputs_def leg_fields split: option.splits)
  qed
qed

lemma fill_legs_Some:
  assumes "fill_legs ff args cats ch event xs s = Some s'"
  shows "\<exists>ins. all_inputs args (histograms s) cats ch event xs = Some ins
    \<and> length ins = length xs
    \<and> histograms s' = histograms s \<and> output_tree s' = output_tree s
    \<and> output_buffer s' = write_all (concat (map (\<lambda>(x, i). leg_writes ff ch i x) (zip xs ins))) (output_buffer s)"
  using assms
proof (induction xs arbitrary: s)
  case Nil
  then show ?case by (simp add: all_inputs_def)
next
  case (Cons x xs)
  from Cons.prems obtain inputs where
    i: "event_inputs args (histograms s) cats ch event x = Some inputs"
       "fill_legs ff args cats ch event xs
          (fold (store_shift ff inputs x) (shift_pairs ch) (store_nominal ff inputs x s)) = Some s'"
    by (auto split: bind_splits)
  from Cons.IH [OF i(2)] obtain ins where
    r: "all_inputs args (histograms s) cats ch event xs = Some ins" "length ins = length xs"
       "histograms s' = histograms s" "output_tree s' = output_tree s"
       "output_buffer s' = write_all (concat (map (\<lambda>(x, i). leg_writes ff ch i x) (zip xs ins)))
          (write_all (leg_writes ff ch inputs x) (output_buffer s))"
    by (auto simp: leg_fields)
  have "all_inputs args (histograms s) cats ch event (x # xs) = Some (inputs # ins)"
    using i(1) r(1) by (simp add: all_inputs_def)
  with r show ?case by simp
qed

lemma output_branches_legs: "output_branches ch = concat (map (leg_branches ch) (suffix_of ch))"
  by (simp add: output_branches_def leg_branches_def [abs_def])

lemma leg_align:
  "map fst (leg_writes ff ch i x) = map snd (leg_branches ch x)"
  "zip (map fst (leg_branches ch x)) (map snd (leg_writes ff ch i x)) = leg_values ff ch i x"
  "map fst (leg_values ff ch i x) = map fst (leg_branches ch x)"
  by (simp_all add: leg_writes_def leg_branches_def leg_values_def zip_map_map zip_same_conv_map
      split_def comp_def)

lemma legs_align:
  assumes "length ins = length xs"
  shows "map fst (concat (map (\<lambda>(x, i). leg_writes ff ch i x) (zip xs ins)))
           = map snd (concat (map (leg_branches ch) xs))"
    and "zip (map fst (concat (map (leg_branches ch) xs)))
           (map snd (concat (map (\<lambda>(x, i). leg_writes ff ch i x) (zip xs ins))))
           = concat (map (\<lambda>(x, i). leg_values ff ch i x) (zip xs ins))"
    and "map fst (concat (map (\<lambda>(x, i). leg_values ff ch i x) (zip xs ins)))
           = map fst (concat (map (leg_branches ch) xs))"
  using assms
proof (induction ins xs rule: list_induct2)
  case Nil
  {
    case 1 show ?case by simp
  next
    case 2 show ?case by simp
  next
    case 3 show ?case by simp
  }
next
  case (Cons i ins x xs)
  {
    case 1 show ?case using Cons.IH(1) by (simp add: leg_align)
  next
    case 2
    have "length (map fst (leg_branches ch x)) = length (map snd (leg_writes ff ch i x))"
      by (simp add: leg_branches_def leg_writes_def)
    then show ?case using Cons.IH(2) by (simp add: leg_align del: length_map)
  next
    case 3 show ?case using Cons.IH(3) by (simp add: leg_align)
  }
qed

lemma filled_row:
  assumes "distinct (map fst kvs)" "map fst kvs = map snd brs"
  shows "map (\<lambda>(b, k). (b, write_all kvs buf k)) brs = zip (map fst brs) (map snd kvs)"
proof (rule nth_equalityI)
  have len: "length kvs = length brs" using assms(2) by (metis length_map)
  then show "length (map (\<lambda>(b, k). (b, write_all kvs buf k)) brs) = length (zip (map fst brs) (map snd kvs))"
    by simp
  fix j assume "j < length (map (\<lambda>(b, k). (b, write_all kvs buf k)) brs)"
  then have j: "j < length brs" "j < length kvs" using len by simp_all
  have "fst (kvs ! j) = snd (brs ! j)"
    using assms(2) j by (metis nth_map)
  moreover have "(fst (kvs ! j), snd (kvs ! j)) \<in> set kvs" using j by simp
  ultimately have "write_all kvs buf (snd (brs ! j)) = snd (kvs ! j)"
    using write_all_lookup [OF assms(1)] by metis
  then show "map (\<lambda>(b, k). (b, write_all kvs buf k)) brs ! j = zip (map fst brs) (map snd kvs) ! j"
    using j by (simp add: split_def)
qed

lemma those_map_nth:
  "those (map f xs) = Some ys \<Longrightarrow> length ys = length xs \<and> (\<forall>j<length xs. f (xs ! j) = Some (ys ! j))"
proof (induction xs arbitrary: ys)
  case Nil
  then show ?case by simp
next
  case (Cons x xs)
  from Cons.prems obtain y ys' where y: "f x = Some y" "those (map f xs) = Some ys'" "ys = y # ys'"
    by (auto split: option.splits)
  from Cons.IH [OF y(2)] y(1,3) show ?case by (auto simp: nth_Cons split: nat.splits)
qed

lemma fill_legs_row:
  assumes "fill_legs ff args cats ch event (suffix_of ch) s = Some s'"
  shows "event_row ff args (histograms s) cats ch event
           = Some (map (\<lambda>(b, k). (b, output_buffer s' k)) (output_branches ch))"
    and "histograms s' = histograms s" and "output_tree s' = output_tree s"
proof -
  from fill_legs_Some [OF assms] obtain ins where
    i: "all_inputs args (histograms s) cats ch event (suffix_of ch) = Some ins"
       "length ins = length (suffix_of ch)"
       "histograms s' = histograms s" "output_tree s' = output_tree s"
       "output_buffer s' = write_all (concat (map (\<lambda>(x, i). leg_writes ff ch i x) (zip (suffix_of ch) ins)))
          (output_buffer s)"
    by blast
  let ?kvs = "concat (map (\<lambda>(x, i). leg_writes ff ch i x) (zip (suffix_of ch) ins))"
  have k: "map fst ?kvs = map snd (output_branches ch)"
    using legs_align(1) [OF i(2)] by (simp add: output_branches_legs)
  have d: "distinct (map fst ?kvs)" unfolding k by (rule distinct_keys)
  have "map (\<lambda>(b, k). (b, output_buffer s' k)) (output_branches ch)
      = zip (map fst (output_branches ch)) (map snd ?kvs)"
    unfolding i(5) using d k by (rule filled_row)
  also have "\<dots> = concat (map (\<lambda>(x, i). leg_values ff ch i x) (zip (suffix_of ch) ins))"
    using legs_align(2) [OF i(2)] by (simp add: output_branches_legs)
  finally show "event_row ff args (histograms s) cats ch event
           = Some (map (\<lambda>(b, k). (b, output_buffer s' k)) (output_branches ch))"
    by (simp add: event_row_def i(1))
  show "histograms s' = histograms s" "output_tree s' = output_tree s" using i by simp_all
qed

lemma fill_tree_rows:
  assumes "fill_tree ff args cats ch events s = Some s'"
  shows "histograms s' = histograms s
    \<and> (\<exists>rows. output_tree s' = output_tree s @ rows
          \<and> map Some rows = map (event_row ff args (histograms s) cats ch) events)"
  using assms
proof (induction events arbitrary: s)
  case Nil
  then show ?case by simp
next
  case (Cons event events)
  from Cons.prems obtain s1 where
    s1: "fill_legs ff args cats ch event (suffix_of ch) s = Some s1"
        "fill_tree ff args cats ch events (Fill ch s1) = Some s'"
    by (auto split: bind_splits)
  note r = fill_legs_row [OF s1(1)]
  have h: "histograms (Fill ch s1) = histograms s" using r(2) by (simp add: Fill_def)
  have t: "output_tree (Fill ch s1)
      = output_tree s @ [map (\<lambda>(b, k). (b, output_buffer s1 k)) (output_branches ch)]"
    using r(3) by (simp add: Fill_def)
  from Cons.IH [OF s1(2)] obtain rows where
    rows: "histograms s' = histograms s" "output_tree s' = output_tree (Fill ch s1) @ rows"
      "map Some rows = map (event_row ff args (histograms s) cats ch) events"
    unfolding h by blast
  have "output_tree s' = output_tree s
      @ (map (\<lambda>(b, k). (b, output_buffer s1 k)) (output_branches ch) # rows)"
    using rows(2) t by simp
  moreover have "map Some (map (\<lambda>(b, k). (b, output_buffer s1 k)) (output_branches ch) # rows)
      = map (event_row ff args (histograms s) cats ch) (event # events)"
    using rows(3) r(1) by simp
  ultimately show ?case using rows(1) by blast
qed

lemma fill_tree_defined:
  assumes "\<forall>event\<in>set events. event_row ff args (histograms s) cats ch event \<noteq> None"
  shows "fill_tree ff args cats ch events s \<noteq> None"
  using assms
proof (induction events arbitrary: s)
  case Nil
  then show ?case by simp
next
  case (Cons event events)
  from Cons.prems have "all_inputs args (histograms s) cats ch event (suffix_of ch) \<noteq> None"
    by (auto simp: event_row_def)
  then obtain s1 where s1: "fill_legs ff args cats ch event (suffix_of ch) s = Some s1"
    using fill_legs_None [of ff args cats ch event "suffix_of ch" s] by auto
  have "histograms (Fill ch s1) = histograms s"
    using fill_legs_row(2) [OF s1] by (simp add: Fill_def)
  with Cons.prems have "\<forall>event\<in>set events. event_row ff args (histograms (Fill ch s1)) cats ch event \<noteq> None"
    by simp
  from Cons.IH [OF this] s1 show ?case by simp
qed

lemma apply_rows:
  assumes "apply_fake_factors ff input_tree (args, datafile, fr, cats) = Some s"
  shows "histograms s = fr"
    and "map Some (output_tree s) = map (event_row ff args fr cats (file_channel datafile)) input_tree"
proof -
  from assms have "fill_tree ff args cats (file_channel datafile) input_tree
      \<lparr>histograms = fr, output_buffer = (\<lambda>_. Finite 0), output_tree = [], stdout = []\<rparr> = Some s"
    by (simp add: apply_fake_factors_def)
  from fill_tree_rows [OF this]
  show "histograms s = fr"
    and "map Some (output_tree s) = map (event_row ff args fr cats (file_channel datafile)) input_tree"
    by auto
qed

lemma apply_row_nth:
  assumes "apply_fake_factors ff input_tree (args, datafile, fr, cats) = Some s" "i < length input_tree"
  shows "length (output_tree s) = length input_tree"
    and "event_row ff args fr cats (file_channel datafile) (input_tree ! i) = Some (output_tree s ! i)"
proof -
  from apply_rows(2) [OF assms(1)]
  have m: "map Some (output_tree s) = map (event_row ff args fr cats (file_channel datafile)) input_tree" .
  then show l: "length (output_tree s) = length input_tree" by (metis length_map)
  from m have "map Some (output_tree s) ! i
      = map (event_row ff args fr cats (file_channel datafile)) input_tree ! i" by simp
  then show "event_row ff args fr cats (file_channel datafile) (input_tree ! i) = Some (output_tree s ! i)"
    using assms(2) l by simp
qed

lemma example_channel:
  "file_channel ''SingleMuon_Run2017B/SingleMuon_Run2017B.root'' = mt"
  by code_simp

lemma example_run:
  "\<exists>s. apply_fake_factors example_ff [example_event]
     (example_args, ''SingleMuon_Run2017B/SingleMuon_Run2017B.root'', example_fr, categories) = Some s"
proof -
  have "\<not> Option.is_none (apply_fake_factors example_ff [example_event]
     (example_args, ''SingleMuon_Run2017B/SingleMuon_Run2017B.root'', example_fr, categories))"
    by code_simp
  then show ?thesis by (auto simp: Option.is_none_def)
qed

lemma row_values:
  assumes "apply_fake_factors ff input_tree (args, datafile, fr, cats) = Some s"
    and "i < length input_tree"
    and "x \<in> set (suffix_of (file_channel datafile))"
  shows "\<exists>inputs. event_inputs args fr cats (file_channel datafile) (input_tree ! i) x = Some inputs
    \<and> set (leg_values ff (file_channel datafile) inputs x) \<subseteq> set (output_tree s ! i)"
    and "distinct (map fst (output_tree s ! i))"
    and "\<forall>(b, v)\<in>set (output_tree s ! i). in_range v"
proof -
  let ?ch = "file_channel datafile"
  from apply_row_nth(2) [OF assms(1,2)]
  have "event_row ff args fr cats ?ch (input_tree ! i) = Some (output_tree s ! i)" .
  then obtain ins where
    ins: "all_inputs args fr cats ?ch (input_tree ! i) (suffix_of ?ch) = Some ins"
      "output_tree s ! i = concat (map (\<lambda>(x, i). leg_values ff ?ch i x) (zip (suffix_of ?ch) ins))"
    by (auto simp: event_row_def)
  from those_map_nth [OF ins(1) [unfolded all_inputs_def]]
  have len: "length ins = length (suffix_of ?ch)"
    and nth: "\<And>j. j < length (suffix_of ?ch)
      \<Longrightarrow> event_inputs args fr cats ?ch (input_tree ! i) (suffix_of ?ch ! j) = Some (ins ! j)"
    by auto
  from assms(3) obtain j where j: "j < length (suffix_of ?ch)" "suffix_of ?ch ! j = x"
    by (auto simp: in_set_conv_nth)
  have "(x, ins ! j) \<in> set (zip (suffix_of ?ch) ins)"
    using j len by (auto simp: set_zip)
  then have "set (leg_values ff ?ch (ins ! j) x) \<subseteq> set (output_tree s ! i)"
    unfolding ins(2) by auto
  with nth [OF j(1)] j(2)
  show "\<exists>inputs. event_inputs args fr cats ?ch (input_tree ! i) x = Some inputs
    \<and> set (leg_values ff ?ch inputs x) \<subseteq> set (output_tree s ! i)" by auto
  have "map fst (output_tree s ! i) = map fst (output_branches ?ch)"
    unfolding ins(2) using legs_align(3) [OF len] by (simp add: output_branches_legs)
  then show "distinct (map fst (output_tree s ! i))" by (simp add: distinct_names)
  show "\<forall>(b, v)\<in>set (output_tree s ! i). in_range v"
    unfolding ins(2) by (auto simp: leg_values_def)
qed

text \<open>
  C2. Every value of the output tree, nominal or shifted, lies in the range from \<open>0\<close> to
  \<open>999\<close>; the value stored for an event, a tau and a variant is the value of the fake factor
  function when that is in the range, and exactly \<open>0\<close> when it is not.
\<close>

theorem stored_values_in_range:
  assumes "apply_fake_factors ff input_tree (args, datafile, fr, cats) = Some s"
    and "i < length input_tree"
    and "x \<in> set (suffix_of (file_channel datafile))"
  shows "\<exists>inputs. event_inputs args fr cats (file_channel datafile) (input_tree ! i) x = Some inputs
    \<and> (\<forall>row\<in>set (output_tree s). \<forall>(b, v)\<in>set row. in_range v)
    \<and> map_of (output_tree s ! i) (nom_branch x)
        = Some (if in_range (ff inputs None) then ff inputs None else Finite 0)
    \<and> (\<forall>(syst, shift)\<in>set (shift_pairs (file_channel datafile)).
          map_of (output_tree s ! i) (shift_branch x syst shift)
            = Some (if in_range (ff inputs (Some (syst @ ''_'' @ shift)))
                    then ff inputs (Some (syst @ ''_'' @ shift)) else Finite 0))"
proof -
  let ?ch = "file_channel datafile"
  from row_values(1) [OF assms] obtain inputs where
    i: "event_inputs args fr cats ?ch (input_tree ! i) x = Some inputs"
       "set (leg_values ff ?ch inputs x) \<subseteq> set (output_tree s ! i)" by blast
  note d = row_values(2) [OF assms]
  have all: "\<forall>row\<in>set (output_tree s). \<forall>(b, v)\<in>set row. in_range v"
  proof
    fix row assume "row \<in> set (output_tree s)"
    then obtain j where j: "j < length (output_tree s)" "row = output_tree s ! j"
      by (auto simp: in_set_conv_nth)
    from j(1) apply_row_nth(1) [OF assms(1,2)] have "j < length input_tree" by simp
    from row_values(3) [OF assms(1) this assms(3)] j(2)
    show "\<forall>(b, v)\<in>set row. in_range v" by simp
  qed
  have "(nom_branch x, clamp (ff inputs None)) \<in> set (output_tree s ! i)"
    using i(2) by (auto simp: leg_values_def)
  then have n: "map_of (output_tree s ! i) (nom_branch x) = Some (clamp (ff inputs None))"
    using d by simp
  have sh: "map_of (output_tree s ! i) (shift_branch x syst shift)
      = Some (clamp (ff inputs (Some (syst @ ''_'' @ shift))))"
    if "(syst, shift) \<in> set (shift_pairs ?ch)" for syst shift
  proof -
    from that have "(shift_branch x syst shift, clamp (ff inputs (Some (syst @ ''_'' @ shift))))
        \<in> set (leg_values ff ?ch inputs x)"
      by (force simp: leg_values_def)
    with i(2) have "(shift_branch x syst shift, clamp (ff inputs (Some (syst @ ''_'' @ shift))))
        \<in> set (output_tree s ! i)" by blast
    then show ?thesis using d by simp
  qed
  from i(1) all n sh show ?thesis unfolding clamp_def by blast
qed

theorem stored_values_in_range_witness:
  "\<exists>s. apply_fake_factors example_ff [example_event]
       (example_args, ''SingleMuon_Run2017B/SingleMuon_Run2017B.root'', example_fr, categories) = Some s
     \<and> (0::nat) < length [example_event]
     \<and> 2 \<in> set (suffix_of (file_channel ''SingleMuon_Run2017B/SingleMuon_Run2017B.root''))
     \<and> map_of (output_tree s ! 0) (nom_branch 2) = Some (Finite 0)
     \<and> map_of (output_tree s ! 0) (shift_branch 2 ''ff_w_syst'' ''down'') = Some (Finite (1 / 10))"
proof -
  from example_run obtain s where s: "apply_fake_factors example_ff [example_event]
       (example_args, ''SingleMuon_Run2017B/SingleMuon_Run2017B.root'', example_fr, categories) = Some s"
    by blast
  have i: "(0::nat) < length [example_event]" by simp
  have x: "2 \<in> set (suffix_of (file_channel ''SingleMuon_Run2017B/SingleMuon_Run2017B.root''))"
    by (simp add: example_channel suffix_of_def)
  have p: "(''ff_w_syst'', ''down'') \<in> set (shift_pairs (file_channel ''SingleMuon_Run2017B/SingleMuon_Run2017B.root''))"
    by (simp add: example_channel shift_pairs_def unc_shifts_def)
  from stored_values_in_range [OF s i x] p
  have "map_of (output_tree s ! 0) (nom_branch 2) = Some (Finite 0)
     \<and> map_of (output_tree s ! 0) (shift_branch 2 ''ff_w_syst'' ''down'') = Some (Finite (1 / 10))"
    by (auto simp: example_ff_def in_range_def)
  with s i x show ?thesis by blast
qed

text \<open>
  C5. When the worker has processed an input tree, the output tree has as many entries as
  the input tree, and entry \<open>i\<close> is computed from event \<open>i\<close>: it holds, for each tau of the
  channel in turn, the branch of the nominal value and the branches of the shifts, each
  with the value that the fake factor function has at the inputs of event \<open>i\<close> and that
  tau (or \<open>0\<close> if that value is not in the range). It is also the entry that the worker
  writes for event \<open>i\<close> alone.
\<close>

theorem rows_mirror_input:
  assumes "apply_fake_factors ff input_tree (args, datafile, fr, cats) = Some s"
  shows "length (output_tree s) = length input_tree
    \<and> (\<forall>i<length input_tree.
          event_row ff args fr cats (file_channel datafile) (input_tree ! i) = Some (output_tree s ! i)
        \<and> map_option output_tree (apply_fake_factors ff [input_tree ! i] (args, datafile, fr, cats))
            = Some [output_tree s ! i])"
proof -
  let ?ch = "file_channel datafile"
  let ?s0 = "\<lparr>histograms = fr, output_buffer = (\<lambda>_. Finite 0), output_tree = [], stdout = []\<rparr>"
  have "event_row ff args fr cats ?ch (input_tree ! i) = Some (output_tree s ! i)
      \<and> map_option output_tree (apply_fake_factors ff [input_tree ! i] (args, datafile, fr, cats))
          = Some [output_tree s ! i]"
    if "i < length input_tree" for i
  proof -
    note r = apply_row_nth(2) [OF assms that]
    then have "\<forall>event\<in>set [input_tree ! i]. event_row ff args (histograms ?s0) cats ?ch event \<noteq> None"
      by simp
    from fill_tree_defined [OF this] obtain t where
      t: "apply_fake_factors ff [input_tree ! i] (args, datafile, fr, cats) = Some t"
      by (auto simp: apply_fake_factors_def)
    from apply_rows(2) [OF t] r have "output_tree t = [output_tree s ! i]" by auto
    with t r show ?thesis by simp
  qed
  moreover have "length (output_tree s) = length input_tree"
    using apply_rows(2) [OF assms] by (metis length_map)
  ultimately show ?thesis by blast
qed

theorem rows_mirror_input_witness:
  "\<exists>s. apply_fake_factors pt_ff [example_event, second_event]
       (example_args, ''SingleMuon_Run2017B/SingleMuon_Run2017B.root'', example_fr, categories) = Some s
     \<and> length (output_tree s) = 2
     \<and> event_row pt_ff example_args example_fr categories mt example_event = Some (output_tree s ! 0)
     \<and> event_row pt_ff example_args example_fr categories mt second_event = Some (output_tree s ! 1)
     \<and> map_of (output_tree s ! 0) ''ff2_nom'' = Some (Finite 30)
     \<and> map_of (output_tree s ! 1) ''ff2_nom'' = Some (Finite 45)"
proof -
  have "\<not> Option.is_none (apply_fake_factors pt_ff [example_event, second_event]
       (example_args, ''SingleMuon_Run2017B/SingleMuon_Run2017B.root'', example_fr, categories))"
    by code_simp
  then obtain s where s: "apply_fake_factors pt_ff [example_event, second_event]
       (example_args, ''SingleMuon_Run2017B/SingleMuon_Run2017B.root'', example_fr, categories) = Some s"
    by (auto simp: Option.is_none_def)
  have v0: "map_option (\<lambda>row. map_of row ''ff2_nom'')
      (event_row pt_ff example_args example_fr categories mt example_event) = Some (Some (Finite 30))"
    by code_simp
  have v1: "map_option (\<lambda>row. map_of row ''ff2_nom'')
      (event_row pt_ff example_args example_fr categories mt second_event) = Some (Some (Finite 45))"
    by code_simp
  note m = rows_mirror_input [OF s, unfolded example_channel]
  from m have l: "length (output_tree s) = 2" by simp
  from m have "\<forall>i<2. event_row pt_ff example_args example_fr categories mt
      ([example_event, second_event] ! i) = Some (output_tree s ! i)" by simp
  then have "event_row pt_ff example_args example_fr categories mt
        ([example_event, second_event] ! 0) = Some (output_tree s ! 0)"
      "event_row pt_ff example_args example_fr categories mt
        ([example_event, second_event] ! 1) = Some (output_tree s ! 1)"
    by (metis zero_less_numeral, metis one_less_numeral_iff semiring_norm(76))
  then have r0: "event_row pt_ff example_args example_fr categories mt example_event = Some (output_tree s ! 0)"
    and r1: "event_row pt_ff example_args example_fr categories mt second_event = Some (output_tree s ! 1)"
    by simp_all
  from v0 r0 have "map_of (output_tree s ! 0) ''ff2_nom'' = Some (Finite 30)" by simp
  moreover from v1 r1 have "map_of (output_tree s ! 1) ''ff2_nom'' = Some (Finite 45)" by simp
  ultimately show ?thesis using s l r0 r1 by blast
qed

text \<open>
  C9. The worker does not change the histograms of the fractions: after it has processed
  an input tree they are the ones it was given.
\<close>

theorem fractions_not_changed:
  assumes "apply_fake_factors ff input_tree (args, datafile, fr, cats) = Some s"
  shows "histograms s = fr"
  using assms by (rule apply_rows(1))

theorem fractions_not_changed_witness:
  "\<exists>s. apply_fake_factors example_ff [example_event]
       (example_args, ''SingleMuon_Run2017B/SingleMuon_Run2017B.root'', example_fr, categories) = Some s
     \<and> histograms s = example_fr"
proof -
  from example_run obtain s where s: "apply_fake_factors example_ff [example_event]
       (example_args, ''SingleMuon_Run2017B/SingleMuon_Run2017B.root'', example_fr, categories) = Some s"
    by blast
  from fractions_not_changed [OF s] s show ?thesis by blast
qed

text \<open>
  C10. The check of the range is inclusive at both bounds. The value that the nominal and
  the shifted evaluation leave in the buffer is the value of the fake factor function if
  \<open>0 \<le> v\<close> and \<open>v \<le> 999\<close> both hold, and \<open>0\<close> otherwise: the values \<open>0\<close> and \<open>999\<close> are
  stored as they are, and NaN, for which both comparisons are false, is stored as \<open>0\<close>.
\<close>

theorem range_check_inclusive:
  "output_buffer (store_nominal ff inputs x s) (nom_key x)
     = (if double_le (Finite 0) (ff inputs None) \<and> double_le (ff inputs None) (Finite 999)
        then ff inputs None else Finite 0)
   \<and> output_buffer (store_shift ff inputs x (syst, shift) s) (shift_key syst shift x)
     = (if double_le (Finite 0) (ff inputs (Some (syst @ ''_'' @ shift)))
           \<and> double_le (ff inputs (Some (syst @ ''_'' @ shift))) (Finite 999)
        then ff inputs (Some (syst @ ''_'' @ shift)) else Finite 0)
   \<and> output_buffer (store_nominal (\<lambda>_ _. Finite 0) inputs x s) (nom_key x) = Finite 0
   \<and> output_buffer (store_nominal (\<lambda>_ _. Finite 999) inputs x s) (nom_key x) = Finite 999
   \<and> output_buffer (store_nominal (\<lambda>_ _. NaN) inputs x s) (nom_key x) = Finite 0
   \<and> output_buffer (store_shift (\<lambda>_ _. Finite 0) inputs x (syst, shift) s) (shift_key syst shift x) = Finite 0
   \<and> output_buffer (store_shift (\<lambda>_ _. Finite 999) inputs x (syst, shift) s) (shift_key syst shift x) = Finite 999
   \<and> output_buffer (store_shift (\<lambda>_ _. NaN) inputs x (syst, shift) s) (shift_key syst shift x) = Finite 0"
  by (simp add: store_nominal_fields store_shift_fields clamp_def in_range_def)

text \<open>
  C7 on the code. With a nominal value of \<open>1500\<close> and all shifted values in the range, the
  nominal value is stored as \<open>0\<close> and nothing is printed. With a shifted value of \<open>1500\<close>
  as well, that value is stored as \<open>0\<close> and the name of the shift, the value and the inputs
  are printed, and still nothing for the nominal value.
\<close>

theorem nominal_value_not_logged:
  "map_option stdout (apply_fake_factors nominal_ff [example_event]
       (example_config ''SingleMuon_Run2017B/SingleMuon_Run2017B.root'')) = Some []
   \<and> stored (apply_fake_factors nominal_ff [example_event]
       (example_config ''SingleMuon_Run2017B/SingleMuon_Run2017B.root'')) 0 ''ff2_nom'' = Some (Finite 0)
   \<and> map_option stdout (apply_fake_factors example_ff [example_event]
       (example_config ''SingleMuon_Run2017B/SingleMuon_Run2017B.root''))
       = Some [PStr ''ff_qcd_systup'', PVal (Finite 1500), PList [30, 10, 2, 150, 20, 1 / 20, 3 / 5, 2 / 5, 0]]
   \<and> stored (apply_fake_factors example_ff [example_event]
       (example_config ''SingleMuon_Run2017B/SingleMuon_Run2017B.root'')) 0 ''ff2_ff_qcd_syst_up'' = Some (Finite 0)"
  by code_simp

text \<open>
  C3 as it is stated fails. An event with the category index \<open>5\<close> resolves for the first
  tau to \<open>tt2_ggh\<close>, and for the second tau the index \<open>10\<close> is out of range and the lookup
  raises; with the category index \<open>-1\<close> the second tau gets the index \<open>4\<close>, the category
  \<open>tt1_misc\<close> of the first half.
\<close>

theorem second_leg_category_counterexample:
  "resolve_category tt categories [''tt_max_index'' \<mapsto> 5] 1 = Some ''tt2_ggh''
   \<and> resolve_category tt categories [''tt_max_index'' \<mapsto> 5] 2 = None
   \<and> resolve_category tt categories [''tt_max_index'' \<mapsto> - 1] 2 = Some ''tt1_misc''
   \<and> ''tt1_misc'' \<notin> set second_half"
  by code_simp

lemma leg_index_cases:
  "py_int (double_add (real (0::nat)) (double_mul 0.5 (real (length (categories tt))))) = int 0 + 5"
  "py_int (double_add (real (1::nat)) (double_mul 0.5 (real (length (categories tt))))) = int 1 + 5"
  "py_int (double_add (real (2::nat)) (double_mul 0.5 (real (length (categories tt))))) = int 2 + 5"
  "py_int (double_add (real (3::nat)) (double_mul 0.5 (real (length (categories tt))))) = int 3 + 5"
  "py_int (double_add (real (4::nat)) (double_mul 0.5 (real (length (categories tt))))) = int 4 + 5"
  "py_int (double_add (real (0::nat)) 0.0) = int 0"
  "py_int (double_add (real (1::nat)) 0.0) = int 1"
  "py_int (double_add (real (2::nat)) 0.0) = int 2"
  "py_int (double_add (real (3::nat)) 0.0) = int 3"
  "py_int (double_add (real (4::nat)) 0.0) = int 4"
  by code_simp+

lemma leg_index:
  assumes "k < 5"
  shows "py_int (double_add (real k) (double_mul 0.5 (real (length (categories tt))))) = int k + 5"
    and "py_int (double_add (real k) 0.0) = int k"
proof -
  from assms consider "k = 0" | "k = 1" | "k = 2" | "k = 3" | "k = 4" by linarith
  then show "py_int (double_add (real k) (double_mul 0.5 (real (length (categories tt))))) = int k + 5"
    by cases (simp_all only: leg_index_cases)
  from assms consider "k = 0" | "k = 1" | "k = 2" | "k = 3" | "k = 4" by linarith
  then show "py_int (double_add (real k) 0.0) = int k"
    by cases (simp_all only: leg_index_cases)
qed

text \<open>
  The sum is one of doubles: for the category index \<open>5 - 1 / 2 ^ 50\<close>, a double below \<open>5\<close>,
  it is rounded to \<open>10\<close> and the lookup for the second tau raises; for \<open>4 - 1 / 2 ^ 51\<close> it
  is rounded to \<open>9\<close>.
\<close>

lemma second_leg_rounding:
  "resolve_category tt categories [''tt_max_index'' \<mapsto> 5 - 1 / 2 ^ 50] 2 = None
   \<and> resolve_category tt categories [''tt_max_index'' \<mapsto> 4 - 1 / 2 ^ 51] 2 = Some ''tt2_misc''"
  by code_simp

text \<open>
  C3, as amended. For every event of the tau-tau channel whose category index is one of
  the integers from \<open>0\<close> up to, but not including, half the length of the list of
  categories, the index used for the second tau is the category index plus half the
  length of the list, and the category selected is in the second half of the list, while
  the first tau selects the category at the category index, in the first half.
\<close>

theorem second_leg_category:
  assumes "event ''tt_max_index'' = Some (real k)" and "k < length (categories tt) div 2"
  shows "py_int (double_add (real k) (double_mul 0.5 (real (length (categories tt)))))
        = int k + int (length (categories tt) div 2)
    \<and> resolve_category tt categories event 2
        = Some (categories tt ! (k + length (categories tt) div 2))
    \<and> categories tt ! (k + length (categories tt) div 2) \<in> set second_half
    \<and> resolve_category tt categories event 1 = Some (categories tt ! k)
    \<and> categories tt ! k \<in> set first_half"
proof -
  have len: "length (categories tt) = 10" by (simp add: categories_def)
  have e5: "length (categories tt) div 2 = 5" by (simp add: len)
  have k: "k < 5" using assms(2) by (simp add: e5)
  note ix = leg_index [OF k]
  have "resolve_category tt categories event 2
      = py_index (categories tt) (py_int (double_add (real k) (double_mul 0.5 (real (length (categories tt))))))"
    by (simp add: resolve_category_def channel_name_def assms(1))
  also have "\<dots> = Some (categories tt ! (k + 5))"
    unfolding ix(1) using k by (simp add: py_index_def len nat_add_distrib)
  finally have r2: "resolve_category tt categories event 2 = Some (categories tt ! (k + 5))" .
  have "resolve_category tt categories event 1 = py_index (categories tt) (py_int (double_add (real k) 0.0))"
    by (simp add: resolve_category_def channel_name_def assms(1))
  also have "\<dots> = Some (categories tt ! k)"
    unfolding ix(2) using k by (simp add: py_index_def len)
  finally have r1: "resolve_category tt categories event 1 = Some (categories tt ! k)" .
  have "second_half ! k = categories tt ! (k + 5)" "k < length second_half"
    using k by (simp_all add: second_half_def len add.commute)
  then have m2: "categories tt ! (k + 5) \<in> set second_half" by (metis nth_mem)
  have "first_half ! k = categories tt ! k" "k < length first_half"
    using k by (simp_all add: first_half_def len)
  then have m1: "categories tt ! k \<in> set first_half" by (metis nth_mem)
  have c1: "py_int (double_add (real k) (double_mul 0.5 (real (length (categories tt))))) = int k + int 5"
    using ix(1) by simp
  show ?thesis unfolding e5 by (intro conjI c1 r2 m2 r1 m1)
qed

theorem second_leg_category_witness:
  "[''tt_max_index'' \<mapsto> real (3::nat)] ''tt_max_index'' = Some (real (3::nat))
   \<and> (3::nat) < length (categories tt) div 2
   \<and> resolve_category tt categories [''tt_max_index'' \<mapsto> real (3::nat)] 2 = Some ''tt2_noniso''
   \<and> ''tt2_noniso'' \<in> set second_half
   \<and> resolve_category tt categories [''tt_max_index'' \<mapsto> real (3::nat)] 1 = Some ''tt1_noniso''"
proof -
  have e: "[''tt_max_index'' \<mapsto> real (3::nat)] ''tt_max_index'' = Some (real (3::nat))" by simp
  have k: "(3::nat) < length (categories tt) div 2" by (simp add: categories_def)
  have c: "categories tt ! (3 + length (categories tt) div 2) = ''tt2_noniso''"
    "categories tt ! 3 = ''tt1_noniso''"
    by (simp_all add: categories_def)
  from second_leg_category [of "[''tt_max_index'' \<mapsto> real (3::nat)]" 3, OF e k] e k show ?thesis
    by (simp only: c)
qed

text \<open>
  C6 as it is stated fails in the tau-tau channel: the second input is the transverse
  momentum of the other tau, which the claim does not list, so the vector has nine entries
  and the decay mode is the third one.
\<close>

theorem feature_vector_counterexample:
  "feature_vector tt example_ssd 2 example_event 1 = Some [40, 30, 1, 2, 150, 3 / 5, 2 / 5, 0, 0]
   \<and> claimed_feature_vector tt example_ssd 2 example_event 1 = Some [40, 1, 2, 150, 3 / 5, 2 / 5, 0, 0]"
  by code_simp

text \<open>
  C6, as amended. The inputs of the fake factor function for an event and a tau are, in the
  electron-tau and muon-tau channels, the transverse momentum and the decay mode of the
  tau, the number of jets, the visible mass, the transverse mass and the isolation of the
  lepton, and the fractions of QCD, W and TT; in the tau-tau channel, the transverse
  momentum of the tau, the transverse momentum of the other tau, the decay mode of the
  tau, the number of jets, the visible mass, and the fractions of QCD, W, TT and DY. The
  fractions are those of the category resolved for the event, read in the bin of the
  data histogram that holds the event's value of the configured expression.
\<close>

theorem feature_vector_order:
  assumes "event_inputs args fr cats ch event x = Some inputs"
  shows "\<exists>category subdict cat_fractions data v.
      resolve_category ch cats event x = Some category \<and> fr ch = Some subdict
    \<and> subdict category = Some cat_fractions \<and> cat_fractions F_data = Some data
    \<and> event (expression (config args ch)) = Some v
    \<and> map Some inputs =
        (if ch = tt
         then [event (''pt_'' @ str_i x), event (''pt_'' @ str_i (3 - x)),
               event (''decayMode_'' @ str_i x), event ''njets'', event ''m_vis'']
              @ map (\<lambda>f. map_option (\<lambda>h. GetBinContent h (FindBin data v)) (cat_fractions f))
                  [F_QCD, F_W, F_TT, F_DY]
         else [event ''pt_2'', event ''decayMode_2'', event ''njets'', event ''m_vis'',
               event ''mt_1'', event ''iso_1'']
              @ map (\<lambda>f. map_option (\<lambda>h. GetBinContent h (FindBin data v)) (cat_fractions f))
                  [F_QCD, F_W, F_TT])"
proof -
  from assms obtain category subdict cat_fractions data v where
    r: "resolve_category ch cats event x = Some category" "fr ch = Some subdict"
       "subdict category = Some cat_fractions" "cat_fractions F_data = Some data"
       "event (expression (config args ch)) = Some v"
       "feature_vector ch cat_fractions (FindBin data v) event x = Some inputs"
    by (auto simp: event_inputs_def split: bind_splits)
  have "map Some inputs =
        (if ch = tt
         then [event (''pt_'' @ str_i x), event (''pt_'' @ str_i (3 - x)),
               event (''decayMode_'' @ str_i x), event ''njets'', event ''m_vis'']
              @ map (\<lambda>f. map_option (\<lambda>h. GetBinContent h (FindBin data v)) (cat_fractions f))
                  [F_QCD, F_W, F_TT, F_DY]
         else [event ''pt_2'', event ''decayMode_2'', event ''njets'', event ''m_vis'',
               event ''mt_1'', event ''iso_1'']
              @ map (\<lambda>f. map_option (\<lambda>h. GetBinContent h (FindBin data v)) (cat_fractions f))
                  [F_QCD, F_W, F_TT])"
  proof (cases "ch = tt")
    case True
    with r(6) show ?thesis by (auto simp: feature_vector_def split: bind_splits)
  next
    case False
    with r(6) show ?thesis by (auto simp: feature_vector_def split: bind_splits)
  qed
  with r(1-5) show ?thesis by blast
qed

theorem feature_vector_order_witness:
  "event_inputs example_args example_fr categories tt example_event 1
      = Some [40, 30, 1, 2, 150, 3 / 5, 2 / 5, 0, 0]
   \<and> map Some [40, 30, 1, 2, 150, 3 / 5, 2 / 5, 0, 0]
      = [example_event ''pt_1'', example_event ''pt_2'', example_event ''decayMode_1'',
         example_event ''njets'', example_event ''m_vis'', Some (3 / 5), Some (2 / 5), Some 0, Some 0]"
proof -
  have e: "event_inputs example_args example_fr categories tt example_event 1
      = Some [40, 30, 1, 2, 150, 3 / 5, 2 / 5, 0, 0]"
    by code_simp
  from feature_vector_order [OF e] e show ?thesis
    by (simp add: example_event_def)
qed

lemma find_datafiles_None:
  "entry \<in> set entries \<Longrightarrow> is_candidate args entry \<Longrightarrow> check_entry args fs entry = None
    \<Longrightarrow> find_datafiles args fs entries datafiles = None"
  by (induction entries arbitrary: datafiles) (auto split: bind_splits)

lemma check_entry_missing:
  assumes "entry_channel entry = Some ch"
    and "\<forall>dir. friend_directory args ch = Some dir
           \<longrightarrow> \<not> isfile fs (path_join dir (path_join entry (entry @ ''.root'')))"
  shows "check_entry args fs entry = None"
  using assms
  by (auto simp: check_entry_def entry_channel_def friend_exists_def Let_def
      split: if_splits option.splits bind_splits)

text \<open>
  C8. If an entry of the input directory is a candidate (its name holds the era and
  \<open>Single\<close> or \<open>Tau\<close>) and the friend file of the entry is not in the friend directory of
  the entry's channel (or that directory is not given), \<open>main\<close> raises: it makes no
  directory and hands no task to the pool of workers.
\<close>

theorem missing_friend_aborts:
  assumes "entry \<in> set (listdir fs (directory cl))"
    and "str_in (''Run'' @ era cl) entry"
    and "str_in ''Single'' entry \<or> str_in ''Tau'' entry"
    and "entry_channel entry = Some ch"
    and "\<forall>dir. friend_directory cl ch = Some dir
           \<longrightarrow> \<not> isfile fs (path_join dir (path_join entry (entry @ ''.root'')))"
  shows "raised (main merge cl key yaml hf fs) \<and> dispatched (main merge cl key yaml hf fs) = []
    \<and> made_directories (main merge cl key yaml hf fs) = []"
proof (cases "yaml key")
  case None
  then show ?thesis by (simp add: main_def abort_def)
next
  case (Some e)
  define args where "args = \<lparr>directory = directory cl, friend_directory = friend_directory cl,
                      fake_factor_directory = fake_factor_directory cl, era = era cl,
                      num_threads = num_threads cl, config = channel_config e,
                      output_directory = outputdir e\<rparr>"
  have c: "is_candidate args entry" using assms(2,3) by (simp add: is_candidate_def args_def)
  have "check_entry args fs entry = None"
    using assms(4,5) by (intro check_entry_missing [of entry ch]) (simp_all add: args_def)
  from find_datafiles_None [OF _ c this, of "listdir fs (directory args)" "[]"] assms(1)
  have f: "find_datafiles args fs (listdir fs (directory args)) [] = None" by (simp add: args_def)
  have "main merge cl key yaml hf fs = abort"
    using Some f by (simp add: main_def Let_def args_def [symmetric] split: option.splits)
  then show ?thesis by (simp add: abort_def)
qed

theorem missing_friend_aborts_witness:
  "''SingleMuon_Run2017B''
      \<in> set (listdir (example_fs [''ntuples/SingleMuon_Run2017B/SingleMuon_Run2017B.root'']) (directory example_cl))
   \<and> str_in (''Run'' @ era example_cl) ''SingleMuon_Run2017B''
   \<and> str_in ''Single'' ''SingleMuon_Run2017B''
   \<and> entry_channel ''SingleMuon_Run2017B'' = Some mt
   \<and> friend_directory example_cl mt = Some ''friends''
   \<and> \<not> isfile (example_fs [''ntuples/SingleMuon_Run2017B/SingleMuon_Run2017B.root''])
         (path_join ''friends'' (path_join ''SingleMuon_Run2017B'' (''SingleMuon_Run2017B'' @ ''.root'')))
   \<and> raised (main first_histogram example_cl ''smhtt'' example_yaml (example_file [0, 12, 4, 0])
         (example_fs [''ntuples/SingleMuon_Run2017B/SingleMuon_Run2017B.root'']))
   \<and> dispatched (main first_histogram example_cl ''smhtt'' example_yaml (example_file [0, 12, 4, 0])
         (example_fs [''ntuples/SingleMuon_Run2017B/SingleMuon_Run2017B.root''])) = []"
proof -
  let ?fs = "example_fs [''ntuples/SingleMuon_Run2017B/SingleMuon_Run2017B.root'']"
  have a: "''SingleMuon_Run2017B'' \<in> set (listdir ?fs (directory example_cl))"
    by (simp add: example_fs_def example_cl_def)
  have b: "str_in (''Run'' @ era example_cl) ''SingleMuon_Run2017B''" by code_simp
  have c: "str_in ''Single'' ''SingleMuon_Run2017B''" by code_simp
  have d: "entry_channel ''SingleMuon_Run2017B'' = Some mt" by code_simp
  have e: "friend_directory example_cl mt = Some ''friends''" by (simp add: example_cl_def)
  have f: "\<not> isfile ?fs (path_join ''friends'' (path_join ''SingleMuon_Run2017B'' (''SingleMuon_Run2017B'' @ ''.root'')))"
    by code_simp
  have g: "\<forall>dir. friend_directory example_cl mt = Some dir
      \<longrightarrow> \<not> isfile ?fs (path_join dir (path_join ''SingleMuon_Run2017B'' (''SingleMuon_Run2017B'' @ ''.root'')))"
    using e f by simp
  from missing_friend_aborts [OF a b disjI1 [OF c] d g] a b c d e f show ?thesis by blast
qed

text \<open>With the friend file in place the same run hands the file to the pool of workers.\<close>

lemma friend_present_dispatches:
  "raised (main first_histogram example_cl ''smhtt'' example_yaml (example_file [0, 12, 4, 0])
     (example_fs [''ntuples/SingleMuon_Run2017B/SingleMuon_Run2017B.root'',
                  ''friends/SingleMuon_Run2017B/SingleMuon_Run2017B.root''])) = False
  \<and> map (fst \<circ> snd) (dispatched (main first_histogram example_cl ''smhtt'' example_yaml (example_file [0, 12, 4, 0])
     (example_fs [''ntuples/SingleMuon_Run2017B/SingleMuon_Run2017B.root'',
                  ''friends/SingleMuon_Run2017B/SingleMuon_Run2017B.root''])))
     = [''SingleMuon_Run2017B/SingleMuon_Run2017B.root'']"
  by code_simp

end
